theory Spec2Isabelle
  imports Main
begin

section \<open>Values, errors and the environment of auth.js\<close>

text \<open>
  The module reads a handful of fields from parsed JSON bodies (accessToken, refreshToken,
  user, role, error, message) and tests them for truthiness. The values modelled are the
  ones such a field takes when it is absent (undefined), null, a boolean, a string or an
  object; numbers and arrays are left out of the model.
\<close>

datatype jsval =
    JUndefined
  | JNull
  | JBool bool
  | JStr string
  | JObj "(string \<times> jsval) list"

text \<open>ToBoolean, as used by \<open>if (v)\<close>, \<open>v ? a : b\<close>, \<open>!v\<close>, \<open>a && b\<close> and \<open>a || b\<close>.\<close>

fun truthy :: "jsval \<Rightarrow> bool" where
  "truthy JUndefined = False"
| "truthy JNull = False"
| "truthy (JBool b) = b"
| "truthy (JStr t) = (t \<noteq> [])"
| "truthy (JObj fs) = True"

text \<open>ToString, as used by template literals, \<open>new Error(v)\<close> and \<open>localStorage.setItem\<close>.\<close>

fun to_string :: "jsval \<Rightarrow> string" where
  "to_string JUndefined = ''undefined''"
| "to_string JNull = ''null''"
| "to_string (JBool b) = (if b then ''true'' else ''false'')"
| "to_string (JStr t) = t"
| "to_string (JObj fs) = ''[object Object]''"

datatype error =
    NetworkError
  | SyntaxError
  | TypeError
  | Error string

text \<open>
  Property read \<open>v.k\<close>: a TypeError on undefined and null, undefined for a property that
  is not there (none of the names the module reads is a member of a primitive's prototype).
\<close>

fun get_prop :: "jsval \<Rightarrow> string \<Rightarrow> error + jsval" where
  "get_prop JUndefined k = Inl TypeError"
| "get_prop JNull k = Inl TypeError"
| "get_prop (JObj fs) k = Inr (case map_of fs k of None \<Rightarrow> JUndefined | Some v \<Rightarrow> v)"
| "get_prop (JBool b) k = Inr JUndefined"
| "get_prop (JStr t) k = Inr JUndefined"

text \<open>
  The second argument of \<open>fetch\<close>, as \<open>apiCall\<close> and \<open>apiRequest\<close> build it: its
  \<open>method\<close>, the two headers and the body.
\<close>

record options =
  http_method :: string
  content_type :: string
  authorization :: "string option"
  body :: "jsval option"

text \<open>
  What \<open>await fetch(url, options)\<close> gives: the promise rejects (network failure), or it
  resolves to a response with a status and a body that \<open>response.json()\<close> parses or not.
\<close>

datatype payload = Unparseable | Json jsval

datatype fetch_result = Rejected | Resolved nat payload

record session =
  access :: jsval
  refresh :: jsval
  user :: jsval

text \<open>
  The module's variables (\<open>authState\<close>, \<open>refreshInterval\<close>), the slot of
  \<open>localStorage\<close> under \<open>REFRESH_TOKEN_KEY\<close>, and the environment the module acts on:
  the interval timers that are active and the last handle handed out, the remote service
  (its answer to a request, given every request sent so far, the last being the one
  answered), the requests sent, the calls of \<open>window.location.replace\<close>, the errors
  written by \<open>console.error\<close>, and the calls of \<open>logout()\<close> that were started without
  \<open>await\<close> and are suspended at their request (each with the options it sent and the
  answer that is on its way).

  A request is recorded by its endpoint (\<open>API_BASE\<close> is the same for all of them) and
  its options. An operation of the module runs from its call to the settling of its
  promise without another task in between; what goes on after that is a further step
  (\<open>tick\<close>, \<open>resume\<close>). The period of the timer, \<open>REFRESH_INTERVAL\<close>, is not
  modelled: a tick may come at any time while the timer is active.
\<close>

record world =
  authState :: session
  refreshInterval :: "nat option"
  localStorage :: "string option"
  intervals :: "nat list"
  last_handle :: nat
  server :: "(string \<times> options) list \<Rightarrow> fetch_result"
  requests :: "(string \<times> options) list"
  location :: "string list"
  console :: "error list"
  detached :: "(options \<times> fetch_result) list"

type_synonym 'a async = "(error + 'a) \<times> world"

definition ok :: "nat \<Rightarrow> bool" where
  "ok status = (200 \<le> status \<and> status \<le> 299)"

definition json :: "payload \<Rightarrow> error + jsval" where
  "json p = (case p of Unparseable \<Rightarrow> Inl SyntaxError | Json v \<Rightarrow> Inr v)"

definition fetch :: "string \<Rightarrow> options \<Rightarrow> world \<Rightarrow> fetch_result \<times> world" where
  "fetch url opts s =
     (let sent = requests s @ [(url, opts)]
      in (server s sent, s\<lparr>requests := sent\<rparr>))"

text \<open>
  \<open>setInterval\<close> hands out a handle greater than zero that is not in use;
  \<open>clearInterval\<close> ends the timer with that handle.
\<close>

definition setInterval :: "world \<Rightarrow> nat \<times> world" where
  "setInterval s =
     (let h = Suc (last_handle s)
      in (h, s\<lparr>intervals := h # intervals s, last_handle := h\<rparr>))"

definition clearInterval :: "nat \<Rightarrow> world \<Rightarrow> world" where
  "clearInterval h s = s\<lparr>intervals := removeAll h (intervals s)\<rparr>"

definition console_error :: "error \<Rightarrow> world \<Rightarrow> world" where
  "console_error e s = s\<lparr>console := console s @ [e]\<rparr>"

definition location_replace :: "string \<Rightarrow> world \<Rightarrow> world" where
  "location_replace url s = s\<lparr>location := location s @ [url]\<rparr>"

section \<open>The module\<close>

definition getStoredRefresh :: "world \<Rightarrow> jsval" where
  "getStoredRefresh s = (case localStorage s of None \<Rightarrow> JNull | Some t \<Rightarrow> JStr t)"

definition setStoredRefresh :: "jsval \<Rightarrow> world \<Rightarrow> world" where
  "setStoredRefresh token s =
     (if truthy token then s\<lparr>localStorage := Some (to_string token)\<rparr>
      else s\<lparr>localStorage := None\<rparr>)"

definition stopAutoRefresh :: "world \<Rightarrow> world" where
  "stopAutoRefresh s =
     (case refreshInterval s of
        None \<Rightarrow> s
      | Some h \<Rightarrow>
          if h \<noteq> 0 then (clearInterval h s)\<lparr>refreshInterval := None\<rparr> else s)"

text \<open>
  Lines 29 to 42 of \<open>apiCall\<close> (and 182 to 195 of \<open>apiRequest\<close>): the options of the
  request. A body that is undefined takes the default null, which is as falsy.
\<close>

definition build_options :: "string \<Rightarrow> jsval \<Rightarrow> world \<Rightarrow> options" where
  "build_options m b s =
     (let options = \<lparr>http_method = m, content_type = ''application/json'',
                     authorization = None, body = None\<rparr>;
          options = (if truthy (access (authState s))
                     then options\<lparr>authorization :=
                            Some (''Bearer '' @ to_string (access (authState s)))\<rparr>
                     else options);
          options = (if truthy b then options\<lparr>body := Some b\<rparr> else options)
      in options)"

text \<open>
  The error thrown for a response that is not ok:
  \<open>new Error(error.error || error.message || "Error en la petici\<acute>on")\<close>, where
  \<open>error\<close> is the parsed body, or \<open>{error: "Error desconocido"}\<close> when the body does
  not parse. The accented letter of the last message is the code unit 0xF3.
\<close>

definition generic_message :: string where
  "generic_message = ''Error en la petici'' @ [CHR 0xF3] @ ''n''"

definition failure :: "payload \<Rightarrow> error" where
  "failure p =
     (let error = (case p of
                     Unparseable \<Rightarrow> JObj [(''error'', JStr ''Error desconocido'')]
                   | Json v \<Rightarrow> v)
      in case get_prop error ''error'' of
           Inl e \<Rightarrow> e
         | Inr a \<Rightarrow>
             if truthy a then Error (to_string a)
             else (case get_prop error ''message'' of
                     Inl e \<Rightarrow> e
                   | Inr b \<Rightarrow>
                       if truthy b then Error (to_string b)
                       else Error generic_message))"

text \<open>
  \<open>logout()\<close> called without \<open>await\<close> (lines 61 and 138) runs at once up to its first
  suspension: \<open>stopAutoRefresh()\<close>, then \<open>apiCall("/logout", "POST")\<close> up to its
  \<open>await fetch\<close>, so the request is sent. The caller goes on while the call waits for
  the response; the call is recorded in \<open>detached\<close> (see \<open>resume\<close> for the rest of it).
\<close>

definition logout_detached :: "world \<Rightarrow> world" where
  "logout_detached s =
     (let s1 = stopAutoRefresh s;
          options = build_options ''POST'' JNull s1;
          (response, s2) = fetch ''/logout'' options s1
      in s2\<lparr>detached := detached s2 @ [(options, response)]\<rparr>)"

text \<open>
  \<open>apiCall\<close> (lines 28 to 74) and \<open>refreshToken\<close> (lines 99 to 114) call each other.
  \<open>apiCall\<close> is written in two parts, so that a detached \<open>logout()\<close> can be taken up
  where it was suspended: \<open>apiCall\<close> builds the options and sends the request (lines 29
  to 44), \<open>apiCall_resume\<close> is the function from the response on (lines 46 to 73).
  \<open>return retry.json()\<close> is inside the \<open>try\<close> without \<open>await\<close>: a body of the retry
  that does not parse rejects the call after the \<open>catch\<close> has been left, so without
  \<open>logout()\<close>.
\<close>

function apiCall :: "string \<Rightarrow> string \<Rightarrow> jsval \<Rightarrow> world \<Rightarrow> jsval async"
  and apiCall_resume :: "string \<Rightarrow> options \<Rightarrow> fetch_result \<Rightarrow> world \<Rightarrow> jsval async"
  and refreshToken :: "world \<Rightarrow> jsval async" where
  "apiCall endpoint m b s =
     (let options = build_options m b s;
          (response, s1) = fetch endpoint options s
      in apiCall_resume endpoint options response s1)"
| "apiCall_resume endpoint options response s1 =
     (case response of
        Rejected \<Rightarrow> (Inl NetworkError, s1)
      | Resolved status p \<Rightarrow>
          if status = 401 \<and> endpoint \<noteq> ''/refresh'' then
            (case refreshToken s1 of
               (Inl e, s2) \<Rightarrow> (Inl e, logout_detached s2)
             | (Inr res, s2) \<Rightarrow>
                 (let (retry, s3) =
                        fetch endpoint
                          (options\<lparr>authorization :=
                             Some (''Bearer '' @ to_string (access (authState s2)))\<rparr>) s2
                  in case retry of
                       Rejected \<Rightarrow> (Inl NetworkError, logout_detached s3)
                     | Resolved rstatus rp \<Rightarrow>
                         if \<not> ok rstatus
                         then (Inl (Error ''Retry failed''), logout_detached s3)
                         else (json rp, s3)))
          else if \<not> ok status then (Inl (failure p), s1)
          else (json p, s1))"
| "refreshToken s =
     (let stored = getStoredRefresh s
      in if \<not> truthy stored then (Inl (Error ''No hay refresh token''), s)
         else
           (case apiCall ''/refresh'' ''POST'' (JObj [(''refresh_token'', stored)]) s of
              (Inl e, s1) \<Rightarrow> (Inl e, s1)
            | (Inr res, s1) \<Rightarrow>
                (case get_prop res ''accessToken'' of
                   Inl e \<Rightarrow> (Inl e, s1)
                 | Inr a \<Rightarrow>
                     (let s2 = s1\<lparr>authState := (authState s1)\<lparr>access := a\<rparr>\<rparr>
                      in case get_prop res ''refreshToken'' of
                           Inl e \<Rightarrow> (Inl e, s2)
                         | Inr r \<Rightarrow>
                             (let s3 = s2\<lparr>authState := (authState s2)\<lparr>refresh := r\<rparr>\<rparr>
                              in case get_prop res ''user'' of
                                   Inl e \<Rightarrow> (Inl e, s3)
                                 | Inr u \<Rightarrow>
                                     (let s4 = s3\<lparr>authState := (authState s3)\<lparr>user := u\<rparr>\<rparr>;
                                          s5 = setStoredRefresh r s4
                                      in (Inr res, s5)))))))"
  by pat_completeness auto
termination
  by (relation "measure (\<lambda>c. case c of
                   Inl (endpoint, m, b, s) \<Rightarrow> if endpoint = ''/refresh'' then 1 else 4
                 | Inr (Inl (endpoint, options, response, s)) \<Rightarrow>
                     if endpoint = ''/refresh'' then 0 else 3
                 | Inr (Inr s) \<Rightarrow> 2)") auto

declare apiCall.simps [simp del] apiCall_resume.simps [simp del] refreshToken.simps [simp del]

definition register :: "jsval \<Rightarrow> jsval \<Rightarrow> jsval \<Rightarrow> world \<Rightarrow> jsval async" where
  "register email password company_name s =
     apiCall ''/register'' ''POST''
       (JObj [(''email'', email), (''password'', password),
              (''company_name'', company_name)]) s"

text \<open>
  The callback that \<open>startAutoRefresh\<close> hands to \<open>setInterval\<close> (lines 133 to 140), run
  once: one tick of the timer.
\<close>

definition tick :: "world \<Rightarrow> world" where
  "tick s =
     (case refreshToken s of
        (Inr res, s1) \<Rightarrow> s1
      | (Inl e, s1) \<Rightarrow> logout_detached (console_error e s1))"

definition startAutoRefresh :: "world \<Rightarrow> world" where
  "startAutoRefresh s =
     (let s1 = stopAutoRefresh s;
          (h, s2) = setInterval s1
      in s2\<lparr>refreshInterval := Some h\<rparr>)"

definition login :: "jsval \<Rightarrow> jsval \<Rightarrow> world \<Rightarrow> jsval async" where
  "login email password s =
     (case apiCall ''/login'' ''POST''
             (JObj [(''email'', email), (''password'', password)]) s of
        (Inl e, s1) \<Rightarrow> (Inl e, s1)
      | (Inr res, s1) \<Rightarrow>
          (case get_prop res ''accessToken'' of
             Inl e \<Rightarrow> (Inl e, s1)
           | Inr a \<Rightarrow>
               (case get_prop res ''refreshToken'' of
                  Inl e \<Rightarrow> (Inl e, s1)
                | Inr r \<Rightarrow>
                    (case get_prop res ''user'' of
                       Inl e \<Rightarrow> (Inl e, s1)
                     | Inr u \<Rightarrow>
                         (let s2 = s1\<lparr>authState := \<lparr>access = a, refresh = r, user = u\<rparr>\<rparr>;
                              s3 = setStoredRefresh r s2;
                              s4 = startAutoRefresh s3
                          in (Inr res, s4))))))"

text \<open>
  \<open>logout\<close> (lines 116 to 128). \<open>logout_settle\<close> is what it does once its
  \<open>apiCall\<close> has settled (lines 121 to 127): the \<open>catch\<close> logs what \<open>apiCall\<close>
  threw, the \<open>finally\<close> block runs on both paths, and the function returns undefined.
\<close>

definition logout_settle :: "jsval async \<Rightarrow> jsval async" where
  "logout_settle c =
     (case c of (r, s2) \<Rightarrow>
        (let s3 = (case r of Inl e \<Rightarrow> console_error e s2 | Inr v \<Rightarrow> s2);
             s4 = s3\<lparr>authState := \<lparr>access = JNull, refresh = JNull, user = JNull\<rparr>\<rparr>;
             s5 = setStoredRefresh JNull s4;
             s6 = location_replace ''/index.html'' s5
         in (Inr JUndefined, s6)))"

definition logout :: "world \<Rightarrow> jsval async" where
  "logout s =
     (let s1 = stopAutoRefresh s
      in logout_settle (apiCall ''/logout'' ''POST'' JNull s1))"

text \<open>
  The rest of a detached \<open>logout()\<close>, run when the answer to its request arrives: the
  \<open>k\<close>-th of the suspended calls is taken up at its \<open>await fetch\<close>. Its result goes
  to nobody.
\<close>

definition resume :: "nat \<Rightarrow> world \<Rightarrow> world" where
  "resume k s =
     (if k < length (detached s) then
        (case detached s ! k of (options, response) \<Rightarrow>
           snd (logout_settle
                  (apiCall_resume ''/logout'' options response
                     (s\<lparr>detached := take k (detached s) @ drop (Suc k) (detached s)\<rparr>))))
      else s)"

definition initAuth :: "world \<Rightarrow> jsval async" where
  "initAuth s =
     (let stored = getStoredRefresh s
      in if \<not> truthy stored then (Inl (Error ''No autenticado''), s)
         else
           (case refreshToken s of
              (Inl e, s1) \<Rightarrow> (Inl e, s1)
            | (Inr res, s1) \<Rightarrow> (Inr res, startAutoRefresh s1)))"

definition requireAuth :: "world \<Rightarrow> world" where
  "requireAuth s =
     (if \<not> truthy (getStoredRefresh s) then location_replace ''/index.html'' s else s)"

definition isAuthenticated :: "world \<Rightarrow> bool" where
  "isAuthenticated s = (\<not> \<not> truthy (getStoredRefresh s))"

definition getUser :: "world \<Rightarrow> jsval" where
  "getUser s = user (authState s)"

definition getAccessToken :: "world \<Rightarrow> jsval" where
  "getAccessToken s = access (authState s)"

text \<open>
  \<open>hasRole(...roles)\<close> is \<open>authState.user && roles.includes(authState.user.role)\<close>:
  the left operand itself when it is falsy, the boolean of \<open>includes\<close> otherwise. The
  roles asked for are strings.
\<close>

definition hasRole :: "string list \<Rightarrow> world \<Rightarrow> error + jsval" where
  "hasRole roles s =
     (let u = user (authState s)
      in if \<not> truthy u then Inr u
         else (case get_prop u ''role'' of
                 Inl e \<Rightarrow> Inl e
               | Inr r \<Rightarrow> Inr (JBool (r \<in> set (map JStr roles)))))"

definition apiRequest :: "string \<Rightarrow> string \<Rightarrow> jsval \<Rightarrow> world \<Rightarrow> jsval async" where
  "apiRequest endpoint m b s =
     (let options = build_options m b s;
          (response, s1) = fetch endpoint options s
      in case response of
           Rejected \<Rightarrow> (Inl NetworkError, s1)
         | Resolved status p \<Rightarrow>
             if \<not> ok status then (Inl (failure p), s1)
             else (json p, s1))"

text \<open>The module as it is loaded: lines 10 to 16, with whatever the slot holds.\<close>

definition init :: "string option \<Rightarrow> ((string \<times> options) list \<Rightarrow> fetch_result) \<Rightarrow> world" where
  "init slot srv =
     \<lparr>authState = \<lparr>access = JNull, refresh = JNull, user = JNull\<rparr>,
      refreshInterval = None, localStorage = slot, intervals = [], last_handle = 0,
      server = srv, requests = [], location = [], console = [], detached = []\<rparr>"

section \<open>Vocabulary of the properties\<close>

text \<open>The request that \<open>refreshToken\<close> sends from a state.\<close>

definition refresh_request :: "world \<Rightarrow> string \<times> options" where
  "refresh_request s = (''/refresh'', build_options ''POST'' (JObj [(''refresh_token'', getStoredRefresh s)]) s)"

text \<open>
  The renewal timer and the module's handle on it agree: no handle and no active timer, or
  one handle, handed out by \<open>setInterval\<close>, and exactly that timer active.
\<close>

definition timer_inv :: "world \<Rightarrow> bool" where
  "timer_inv s =
     (case refreshInterval s of
        None \<Rightarrow> intervals s = []
      | Some h \<Rightarrow> intervals s = [h] \<and> 0 < h \<and> h \<le> last_handle s)"

text \<open>
  The states the module gets into: it is loaded, and then the application calls what the
  module exports, the timer fires while it is active, the answer to the request of a
  detached \<open>logout()\<close> arrives, or another page of the origin writes the slot.
\<close>

inductive reachable :: "world \<Rightarrow> bool" where
  loaded: "reachable (init slot srv)"
| storage: "reachable s \<Longrightarrow> reachable (s\<lparr>localStorage := slot\<rparr>)"
| register: "reachable s \<Longrightarrow> reachable (snd (register email password company_name s))"
| login: "reachable s \<Longrightarrow> reachable (snd (login email password s))"
| logout: "reachable s \<Longrightarrow> reachable (snd (logout s))"
| refreshToken: "reachable s \<Longrightarrow> reachable (snd (refreshToken s))"
| initAuth: "reachable s \<Longrightarrow> reachable (snd (initAuth s))"
| requireAuth: "reachable s \<Longrightarrow> reachable (requireAuth s)"
| apiRequest: "reachable s \<Longrightarrow> reachable (snd (apiRequest endpoint m b s))"
| tick: "reachable s \<Longrightarrow> h \<in> set (intervals s) \<Longrightarrow> reachable (tick s)"
| resume: "reachable s \<Longrightarrow> reachable (resume k s)"

text \<open>
  The specification's refresh, in its own words: as \<open>refreshToken\<close>, with the request
  issued through the storage-only variant \<open>apiRequest\<close>. It is compared with
  \<open>refreshToken\<close> below.
\<close>

definition refreshToken_storage_only :: "world \<Rightarrow> jsval async" where
  "refreshToken_storage_only s =
     (let stored = getStoredRefresh s
      in if \<not> truthy stored then (Inl (Error ''No hay refresh token''), s)
         else
           (case apiRequest ''/refresh'' ''POST'' (JObj [(''refresh_token'', stored)]) s of
              (Inl e, s1) \<Rightarrow> (Inl e, s1)
            | (Inr res, s1) \<Rightarrow>
                (case get_prop res ''accessToken'' of
                   Inl e \<Rightarrow> (Inl e, s1)
                 | Inr a \<Rightarrow>
                     (let s2 = s1\<lparr>authState := (authState s1)\<lparr>access := a\<rparr>\<rparr>
                      in case get_prop res ''refreshToken'' of
                           Inl e \<Rightarrow> (Inl e, s2)
                         | Inr r \<Rightarrow>
                             (let s3 = s2\<lparr>authState := (authState s2)\<lparr>refresh := r\<rparr>\<rparr>
                              in case get_prop res ''user'' of
                                   Inl e \<Rightarrow> (Inl e, s3)
                                 | Inr u \<Rightarrow>
                                     (let s4 = s3\<lparr>authState := (authState s3)\<lparr>user := u\<rparr>\<rparr>;
                                          s5 = setStoredRefresh r s4
                                      in (Inr res, s5)))))))"

text \<open>Readings of what \<open>fetch\<close> gave: status 401, a status from 200 to 299, the parsed body.\<close>

definition unauthorized :: "fetch_result \<Rightarrow> bool" where
  "unauthorized response = (case response of Rejected \<Rightarrow> False | Resolved status p \<Rightarrow> status = 401)"

definition succeeded :: "fetch_result \<Rightarrow> bool" where
  "succeeded response = (case response of Rejected \<Rightarrow> False | Resolved status p \<Rightarrow> ok status)"

definition parsed :: "fetch_result \<Rightarrow> error + jsval" where
  "parsed response = (case response of Rejected \<Rightarrow> Inl NetworkError | Resolved status p \<Rightarrow> json p)"

text \<open>
  A refresh credential as the specification types it, an optional value: undefined and null
  are its absence. \<open>mirrored\<close> says that the Session's refresh credential is the value of
  the Credential Store.
\<close>

definition credential :: "jsval \<Rightarrow> jsval option" where
  "credential v = (if v = JUndefined \<or> v = JNull then None else Some v)"

definition mirrored :: "world \<Rightarrow> bool" where
  "mirrored s = (credential (refresh (authState s)) = map_option JStr (localStorage s))"

section \<open>Scenarios\<close>

text \<open>
  Remote services for the concrete runs below: one that does not answer, one that answers
  500, one that knows a single account, rotates its refresh credential once and serves
  \<open>/orders\<close> only to the renewed access credential, and one that hands out an empty
  refresh credential. \<open>signed_in\<close> is the state after a login at the third,
  \<open>reloaded\<close> the module loaded again over the slot that login left.
\<close>

definition offline :: "(string \<times> options) list \<Rightarrow> fetch_result" where
  "offline sent = Rejected"

definition broken :: "(string \<times> options) list \<Rightarrow> fetch_result" where
  "broken sent = Resolved 500 Unparseable"

definition tokens :: "string \<Rightarrow> string \<Rightarrow> jsval" where
  "tokens a r =
     JObj [(''accessToken'', JStr a), (''refreshToken'', JStr r),
           (''user'', JObj [(''email'', JStr ''a@x.com''), (''role'', JStr ''admin'')])]"

definition service :: "(string \<times> options) list \<Rightarrow> fetch_result" where
  "service sent =
     (case rev sent of
        [] \<Rightarrow> Rejected
      | (url, opts) # earlier \<Rightarrow>
          if url = ''/login'' then
            (if body opts = Some (JObj [(''email'', JStr ''a@x.com''), (''password'', JStr ''pw'')])
             then Resolved 200 (Json (tokens ''A1'' ''R1''))
             else Resolved 401 (Json (JObj [(''error'', JStr ''Credenciales incorrectas'')])))
          else if url = ''/refresh'' then
            (if body opts = Some (JObj [(''refresh_token'', JStr ''R1'')])
             then Resolved 200 (Json (tokens ''A2'' ''R2''))
             else Resolved 401 (Json (JObj [(''error'', JStr ''Refresh token invalido'')])))
          else if url = ''/logout'' then Resolved 200 (Json (JObj []))
          else if authorization opts = Some ''Bearer A2''
          then Resolved 200 (Json (JObj [(''orders'', JStr ''none'')]))
          else Resolved 401 Unparseable)"

definition careless :: "(string \<times> options) list \<Rightarrow> fetch_result" where
  "careless sent = Resolved 200 (Json (tokens ''A1'' []))"

definition signed_in :: world where
  "signed_in = snd (login (JStr ''a@x.com'') (JStr ''pw'') (init None service))"

definition reloaded :: world where
  "reloaded = init (Some ''R1'') service"

text \<open>
  The same service, reachable for the first request only, and the state after a login at
  it: the user is signed in and the network is down.
\<close>

definition unplugged :: "(string \<times> options) list \<Rightarrow> fetch_result" where
  "unplugged sent = (if length sent \<le> 1 then service sent else Rejected)"

definition cut_off :: world where
  "cut_off = snd (login (JStr ''a@x.com'') (JStr ''pw'') (init None unplugged))"

section \<open>Frames and invariants\<close>

lemma fetch_simp [simp]: "fetch url opts s = (server s (requests s @ [(url, opts)]), s\<lparr>requests := requests s @ [(url, opts)]\<rparr>)"
  by (simp add: fetch_def Let_def)

lemma apiCall_refresh_eq: "apiCall ''/refresh'' m b s = apiRequest ''/refresh'' m b s"
  by (simp add: apiCall.simps apiCall_resume.simps apiRequest_def Let_def split: fetch_result.splits)

lemma apiRequest_frame:
  "apiRequest endpoint m b s = (r, s') \<Longrightarrow>
     s' = s\<lparr>requests := requests s @ [(endpoint, build_options m b s)]\<rparr>"
  by (auto simp: apiRequest_def Let_def split: fetch_result.splits if_splits)

lemma setStoredRefresh_frame [simp]:
  "authState (setStoredRefresh t s) = authState s"
  "refreshInterval (setStoredRefresh t s) = refreshInterval s"
  "intervals (setStoredRefresh t s) = intervals s"
  "last_handle (setStoredRefresh t s) = last_handle s"
  "server (setStoredRefresh t s) = server s"
  "requests (setStoredRefresh t s) = requests s"
  "location (setStoredRefresh t s) = location s"
  "console (setStoredRefresh t s) = console s"
  "detached (setStoredRefresh t s) = detached s"
  by (simp_all add: setStoredRefresh_def)

lemma refreshToken_falsy:
  "\<not> truthy (getStoredRefresh s) \<Longrightarrow> refreshToken s = (Inl (Error ''No hay refresh token''), s)"
  by (simp add: refreshToken.simps)

lemma refreshToken_frame:
  assumes "refreshToken s = (r, s')"
  shows "refreshInterval s' = refreshInterval s" "intervals s' = intervals s"
    "last_handle s' = last_handle s" "server s' = server s" "location s' = location s"
    "console s' = console s" "detached s' = detached s"
    "requests s' = (if truthy (getStoredRefresh s) then requests s @ [refresh_request s] else requests s)"
  using assms
  by (auto simp: refreshToken.simps apiCall_refresh_eq Let_def refresh_request_def
      dest!: apiRequest_frame split: if_splits prod.splits sum.splits)

lemma stopAutoRefresh_frame [simp]:
  "authState (stopAutoRefresh s) = authState s"
  "localStorage (stopAutoRefresh s) = localStorage s"
  "last_handle (stopAutoRefresh s) = last_handle s"
  "server (stopAutoRefresh s) = server s"
  "requests (stopAutoRefresh s) = requests s"
  "location (stopAutoRefresh s) = location s"
  "console (stopAutoRefresh s) = console s"
  "detached (stopAutoRefresh s) = detached s"
  by (simp_all add: stopAutoRefresh_def clearInterval_def split: option.splits)

lemma stopAutoRefresh_stops:
  "timer_inv s \<Longrightarrow> refreshInterval (stopAutoRefresh s) = None \<and> intervals (stopAutoRefresh s) = []"
  by (auto simp: timer_inv_def stopAutoRefresh_def clearInterval_def split: option.splits)

lemma stopAutoRefresh_none:
  "refreshInterval s = None \<Longrightarrow> stopAutoRefresh s = s"
  by (simp add: stopAutoRefresh_def)

lemma login_success:
  assumes "login email password s = (Inr res, s')"
  shows "\<exists>a r u s1. get_prop res ''accessToken'' = Inr a \<and> get_prop res ''refreshToken'' = Inr r
           \<and> get_prop res ''user'' = Inr u
           \<and> apiCall ''/login'' ''POST'' (JObj [(''email'', email), (''password'', password)]) s = (Inr res, s1)
           \<and> s' = startAutoRefresh (setStoredRefresh r (s1\<lparr>authState := \<lparr>access = a, refresh = r, user = u\<rparr>\<rparr>))"
  using assms by (auto simp: login_def Let_def split: prod.splits sum.splits)

lemma refreshToken_success:
  assumes "refreshToken s = (Inr res, s')"
  shows "\<exists>a r u s1. get_prop res ''accessToken'' = Inr a \<and> get_prop res ''refreshToken'' = Inr r
           \<and> get_prop res ''user'' = Inr u \<and> truthy (getStoredRefresh s)
           \<and> apiRequest ''/refresh'' ''POST'' (JObj [(''refresh_token'', getStoredRefresh s)]) s = (Inr res, s1)
           \<and> s' = setStoredRefresh r (s1\<lparr>authState := (authState s1)\<lparr>access := a, refresh := r, user := u\<rparr>\<rparr>)"
  using assms by (auto simp: refreshToken.simps apiCall_refresh_eq Let_def split: prod.splits sum.splits if_splits)

lemma startAutoRefresh_frame [simp]:
  "authState (startAutoRefresh s) = authState s"
  "localStorage (startAutoRefresh s) = localStorage s"
  "server (startAutoRefresh s) = server s"
  "requests (startAutoRefresh s) = requests s"
  "location (startAutoRefresh s) = location s"
  "console (startAutoRefresh s) = console s"
  "detached (startAutoRefresh s) = detached s"
  by (simp_all add: startAutoRefresh_def setInterval_def Let_def)

lemma build_options_frame [simp]:
  "build_options m b (stopAutoRefresh s) = build_options m b s"
  "build_options m b (console_error e s) = build_options m b s"
  "build_options m b (s\<lparr>requests := q\<rparr>) = build_options m b s"
  "build_options m b (s\<lparr>detached := d\<rparr>) = build_options m b s"
  by (simp_all add: build_options_def Let_def console_error_def cong: if_cong)

lemma logout_detached_frame [simp]:
  "authState (logout_detached s) = authState s"
  "localStorage (logout_detached s) = localStorage s"
  "last_handle (logout_detached s) = last_handle s"
  "server (logout_detached s) = server s"
  "location (logout_detached s) = location s"
  "console (logout_detached s) = console s"
  "refreshInterval (logout_detached s) = refreshInterval (stopAutoRefresh s)"
  "intervals (logout_detached s) = intervals (stopAutoRefresh s)"
  "requests (logout_detached s) = requests s @ [(''/logout'', build_options ''POST'' JNull s)]"
  "detached (logout_detached s) =
     detached s @ [(build_options ''POST'' JNull s,
                    server s (requests s @ [(''/logout'', build_options ''POST'' JNull s)]))]"
  by (simp_all add: logout_detached_def Let_def)

lemma timer_inv_cong:
  "refreshInterval s' = refreshInterval s \<Longrightarrow> intervals s' = intervals s \<Longrightarrow>
   last_handle s' = last_handle s \<Longrightarrow> timer_inv s' = timer_inv s"
  by (simp add: timer_inv_def split: option.splits)

lemma timer_inv_stop: "timer_inv s \<Longrightarrow> timer_inv (stopAutoRefresh s)"
  by (auto simp: timer_inv_def stopAutoRefresh_def clearInterval_def split: option.splits)

lemma timer_inv_logout_detached: "timer_inv s \<Longrightarrow> timer_inv (logout_detached s)"
  using timer_inv_stop [of s] timer_inv_cong [of "logout_detached s" "stopAutoRefresh s"]
  by simp

lemma refreshToken_keeps:
  assumes "refreshToken s = (r, s')"
  shows "refreshInterval s' = refreshInterval s \<and> intervals s' = intervals s
    \<and> last_handle s' = last_handle s \<and> server s' = server s \<and> location s' = location s
    \<and> console s' = console s \<and> detached s' = detached s"
  using refreshToken_frame [OF assms] by simp

lemma timer_inv_refreshToken: "refreshToken s = (r, s') \<Longrightarrow> timer_inv s' = timer_inv s"
  by (rule timer_inv_cong) (simp_all add: refreshToken_keeps)

lemma timer_inv_requests [simp]: "timer_inv (s\<lparr>requests := q\<rparr>) = timer_inv s"
  by (simp add: timer_inv_def split: option.splits)

lemma apiCall_resume_keeps:
  assumes "apiCall_resume endpoint options response s = (r, s')"
  shows "last_handle s' = last_handle s \<and> server s' = server s \<and> location s' = location s
    \<and> console s' = console s"
  using assms
  by (auto simp: apiCall_resume.simps Let_def
      dest!: refreshToken_keeps
      split: fetch_result.splits if_splits prod.splits sum.splits)

lemma timer_inv_apiCall_resume:
  assumes "apiCall_resume endpoint options response s = (r, s')" and "timer_inv s"
  shows "timer_inv s'"
  using assms
  by (auto simp: apiCall_resume.simps Let_def
      dest!: timer_inv_refreshToken
      intro!: timer_inv_logout_detached
      split: fetch_result.splits if_splits prod.splits sum.splits)


lemma apiCall_unfold:
  "apiCall endpoint m b s =
     apiCall_resume endpoint (build_options m b s)
       (server s (requests s @ [(endpoint, build_options m b s)]))
       (s\<lparr>requests := requests s @ [(endpoint, build_options m b s)]\<rparr>)"
  by (simp add: apiCall.simps Let_def)

lemma apiCall_keeps:
  assumes "apiCall endpoint m b s = (r, s')"
  shows "last_handle s' = last_handle s \<and> server s' = server s \<and> location s' = location s
    \<and> console s' = console s"
  using assms apiCall_resume_keeps unfolding apiCall_unfold by fastforce

lemma timer_inv_apiCall:
  assumes "apiCall endpoint m b s = (r, s')" and "timer_inv s"
  shows "timer_inv s'"
  using assms timer_inv_apiCall_resume unfolding apiCall_unfold by fastforce

lemma stopped_apiCall_resume:
  assumes "apiCall_resume endpoint options response s = (r, s')"
    and "refreshInterval s = None" and "intervals s = []"
  shows "refreshInterval s' = None \<and> intervals s' = []"
  using assms
  by (auto simp: apiCall_resume.simps Let_def stopAutoRefresh_none
      dest!: refreshToken_keeps
      split: fetch_result.splits if_splits prod.splits sum.splits)

lemma stopped_apiCall:
  assumes "apiCall endpoint m b s = (r, s')"
    and "refreshInterval s = None" and "intervals s = []"
  shows "refreshInterval s' = None \<and> intervals s' = []"
  using assms stopped_apiCall_resume [of endpoint _ _ _ r s'] unfolding apiCall_unfold by simp

lemma logout_settle_frame [simp]:
  "fst (logout_settle (r, s)) = Inr JUndefined"
  "authState (snd (logout_settle (r, s))) = \<lparr>access = JNull, refresh = JNull, user = JNull\<rparr>"
  "localStorage (snd (logout_settle (r, s))) = None"
  "refreshInterval (snd (logout_settle (r, s))) = refreshInterval s"
  "intervals (snd (logout_settle (r, s))) = intervals s"
  "last_handle (snd (logout_settle (r, s))) = last_handle s"
  "server (snd (logout_settle (r, s))) = server s"
  "requests (snd (logout_settle (r, s))) = requests s"
  "detached (snd (logout_settle (r, s))) = detached s"
  "location (snd (logout_settle (r, s))) = location s @ [''/index.html'']"
  "console (snd (logout_settle (r, s))) = (case r of Inl e \<Rightarrow> console s @ [e] | Inr v \<Rightarrow> console s)"
  by (simp_all add: logout_settle_def Let_def setStoredRefresh_def location_replace_def
      console_error_def split: sum.splits)

lemma startAutoRefresh_starts:
  "timer_inv s \<Longrightarrow>
     refreshInterval (startAutoRefresh s) = Some (Suc (last_handle s))
     \<and> intervals (startAutoRefresh s) = [Suc (last_handle s)]
     \<and> last_handle (startAutoRefresh s) = Suc (last_handle s)"
  using stopAutoRefresh_stops [of s]
  by (simp add: startAutoRefresh_def setInterval_def Let_def)

lemma timer_inv_start: "timer_inv s \<Longrightarrow> timer_inv (startAutoRefresh s)"
  using startAutoRefresh_starts [of s] by (simp add: timer_inv_def)

lemma timer_inv_auth [simp]: "timer_inv (s\<lparr>authState := a\<rparr>) = timer_inv s"
  by (simp add: timer_inv_def split: option.splits)

lemma timer_inv_storage [simp]: "timer_inv (s\<lparr>localStorage := a\<rparr>) = timer_inv s"
  by (simp add: timer_inv_def split: option.splits)

lemma timer_inv_setStored [simp]: "timer_inv (setStoredRefresh t s) = timer_inv s"
  by (simp add: setStoredRefresh_def)

lemma timer_inv_console [simp]: "timer_inv (console_error e s) = timer_inv s"
  by (simp add: timer_inv_def console_error_def split: option.splits)

lemma timer_inv_location [simp]: "timer_inv (location_replace u s) = timer_inv s"
  by (simp add: timer_inv_def location_replace_def split: option.splits)

lemma timer_inv_detached [simp]: "timer_inv (s\<lparr>detached := d\<rparr>) = timer_inv s"
  by (simp add: timer_inv_def split: option.splits)

lemma timer_inv_init: "timer_inv (init slot srv)"
  by (simp add: timer_inv_def init_def)

lemma timer_inv_login: "timer_inv s \<Longrightarrow> timer_inv (snd (login email password s))"
  by (auto simp: login_def Let_def intro!: timer_inv_start dest: timer_inv_apiCall
      split: prod.splits sum.splits)

lemma timer_inv_settle: "timer_inv (snd (logout_settle (r, s))) = timer_inv s"
  by (rule timer_inv_cong) simp_all

lemma timer_inv_logout: "timer_inv s \<Longrightarrow> timer_inv (snd (logout s))"
  using timer_inv_apiCall [of "''/logout''" "''POST''" JNull "stopAutoRefresh s"] timer_inv_stop [of s]
  by (cases "apiCall ''/logout'' ''POST'' JNull (stopAutoRefresh s)")
     (simp add: logout_def Let_def timer_inv_settle)

lemma timer_inv_initAuth: "timer_inv s \<Longrightarrow> timer_inv (snd (initAuth s))"
  by (auto simp: initAuth_def Let_def intro!: timer_inv_start dest: timer_inv_refreshToken
      split: prod.splits sum.splits)

lemma timer_inv_tick: "timer_inv s \<Longrightarrow> timer_inv (tick s)"
  by (auto simp: tick_def intro!: timer_inv_logout_detached dest: timer_inv_refreshToken
      split: prod.splits sum.splits)

lemma timer_inv_resume: "timer_inv s \<Longrightarrow> timer_inv (resume k s)"
proof (cases "k < length (detached s)")
  case False
  assume "timer_inv s"
  with False show ?thesis by (simp add: resume_def)
next
  case True
  assume inv: "timer_inv s"
  obtain options response where d: "detached s ! k = (options, response)"
    by (cases "detached s ! k")
  obtain r s2 where c: "apiCall_resume ''/logout'' options response
      (s\<lparr>detached := take k (detached s) @ drop (Suc k) (detached s)\<rparr>) = (r, s2)"
    by (cases "apiCall_resume ''/logout'' options response
      (s\<lparr>detached := take k (detached s) @ drop (Suc k) (detached s)\<rparr>)")
  have "timer_inv s2" using timer_inv_apiCall_resume [OF c] inv by simp
  with True d c show ?thesis by (simp add: resume_def timer_inv_settle)
qed

lemma reachable_timer_inv: "reachable s \<Longrightarrow> timer_inv s"
proof (induction rule: reachable.induct)
  case (loaded slot srv)
  show ?case by (rule timer_inv_init)
next
  case (register s email password company_name)
  then show ?case
    using timer_inv_apiCall by (cases "register email password company_name s") (auto simp: register_def)
next
  case (refreshToken s)
  then show ?case
    using timer_inv_refreshToken by (cases "refreshToken s") auto
next
  case (apiRequest s endpoint m b)
  then show ?case
    by (cases "apiRequest endpoint m b s") (auto dest!: apiRequest_frame)
qed (simp_all add: timer_inv_login timer_inv_logout timer_inv_initAuth timer_inv_tick
      timer_inv_resume requireAuth_def)

section \<open>The shape of a call of apiCall\<close>

lemma apiCall_resume_plain:
  assumes "\<not> unauthorized response \<or> endpoint = ''/refresh''"
  shows "apiCall_resume endpoint options response s1 =
     (case response of
        Rejected \<Rightarrow> (Inl NetworkError, s1)
      | Resolved status p \<Rightarrow>
          if \<not> ok status then (Inl (failure p), s1) else (json p, s1))"
proof (cases response)
  case Rejected
  then show ?thesis by (simp add: apiCall_resume.simps)
next
  case (Resolved status p)
  with assms have n: "(status = 401 \<and> endpoint \<noteq> ''/refresh'') = False"
    by (auto simp: unauthorized_def)
  show ?thesis unfolding Resolved apiCall_resume.simps by (simp add: n)
qed

lemma apiCall_plain:
  assumes "\<not> unauthorized (server s (requests s @ [(endpoint, build_options m b s)])) \<or> endpoint = ''/refresh''"
  shows "apiCall endpoint m b s = apiRequest endpoint m b s"
  unfolding apiCall_unfold apiCall_resume_plain [OF assms]
  by (simp add: apiRequest_def Let_def)

lemma apiCall_resume_401:
  assumes "endpoint \<noteq> ''/refresh''" and "refreshToken s1 = (rr, s2)"
  shows "apiCall_resume endpoint options (Resolved 401 p) s1 =
     (case rr of
        Inl e \<Rightarrow> (Inl e, logout_detached s2)
      | Inr res \<Rightarrow>
          (let s3 = s2\<lparr>requests := requests s2 @
                      [(endpoint, options\<lparr>authorization :=
                          Some (''Bearer '' @ to_string (access (authState s2)))\<rparr>)]\<rparr>
           in case server s2 (requests s3) of
                Rejected \<Rightarrow> (Inl NetworkError, logout_detached s3)
              | Resolved rstatus rp \<Rightarrow>
                  if \<not> ok rstatus then (Inl (Error ''Retry failed''), logout_detached s3)
                  else (json rp, s3)))"
  using assms by (simp add: apiCall_resume.simps Let_def split: sum.splits)

lemma apiCall_shape:
  assumes call: "apiCall endpoint m b s = (r, s')"
    and opts: "options = build_options m b s"
    and sent: "s1 = s\<lparr>requests := requests s @ [(endpoint, options)]\<rparr>"
    and resp: "response = server s (requests s1)"
    and rt: "refreshToken s1 = (rr, s2)"
    and again: "again = (endpoint, options\<lparr>authorization :=
                    Some (''Bearer '' @ to_string (access (authState s2)))\<rparr>)"
    and answer: "answer = server s (requests s2 @ [again])"
    and bye: "bye = (''/logout'', build_options ''POST'' JNull s2)"
  shows "(unauthorized response \<and> endpoint \<noteq> ''/refresh'' \<and> isl rr \<longrightarrow>
            r = rr \<and> requests s' = requests s2 @ [bye]
            \<and> length (detached s') = Suc (length (detached s)))
    \<and> (unauthorized response \<and> endpoint \<noteq> ''/refresh'' \<and> \<not> isl rr \<longrightarrow>
            requests s2 = requests s @ [(endpoint, options), refresh_request s1]
            \<and> (succeeded answer \<longrightarrow>
                  r = parsed answer \<and> requests s' = requests s2 @ [again]
                  \<and> detached s' = detached s)
            \<and> (\<not> succeeded answer \<longrightarrow>
                  r = Inl (if answer = Rejected then NetworkError else Error ''Retry failed'')
                  \<and> requests s' = requests s2 @ [again, bye]
                  \<and> length (detached s') = Suc (length (detached s))))
    \<and> (\<not> unauthorized response \<or> endpoint = ''/refresh'' \<longrightarrow>
            requests s' = requests s @ [(endpoint, options)] \<and> detached s' = detached s)"
proof -
  note k = refreshToken_keeps [OF rt]
  have srv: "server s2 = server s" and det: "detached s2 = detached s"
    using k by (simp_all add: sent)
  have c: "apiCall_resume endpoint options response s1 = (r, s')"
    using call unfolding apiCall_unfold opts sent resp by simp
  show ?thesis
  proof (cases "unauthorized response \<and> endpoint \<noteq> ''/refresh''")
    case False
    then have "apiCall endpoint m b s = apiRequest endpoint m b s"
      using apiCall_plain [of s endpoint m b] by (auto simp: resp sent opts)
    with call have "s' = s\<lparr>requests := requests s @ [(endpoint, build_options m b s)]\<rparr>"
      using apiRequest_frame by simp
    with False show ?thesis by (auto simp: opts)
  next
    case True
    then obtain p where p: "response = Resolved 401 p"
      by (auto simp: unauthorized_def split: fetch_result.splits)
    from True have ep: "endpoint \<noteq> ''/refresh''" by simp
    note eq = c [unfolded p apiCall_resume_401 [OF ep rt]]
    show ?thesis
    proof (cases rr)
      case (Inl e)
      with eq have "r = rr" and "s' = logout_detached s2" by simp_all
      with True Inl det show ?thesis by (simp add: bye)
    next
      case (Inr res)
      then have st: "truthy (getStoredRefresh s1)"
        using rt refreshToken_falsy [of s1] by auto
      have rq: "requests s2 = requests s @ [(endpoint, options), refresh_request s1]"
        using refreshToken_frame(8) [OF rt] st by (simp add: sent)
      define s3 where "s3 = s2\<lparr>requests := requests s2 @ [again]\<rparr>"
      have eq3: "(case answer of
                Rejected \<Rightarrow> (Inl NetworkError, logout_detached s3)
              | Resolved rstatus rp \<Rightarrow>
                  if \<not> ok rstatus then (Inl (Error ''Retry failed''), logout_detached s3)
                  else (json rp, s3)) = (r, s')"
        using eq unfolding Inr sum.case s3_def again answer Let_def srv by simp
      have b3: "build_options ''POST'' JNull s3 = build_options ''POST'' JNull s2"
        by (simp add: s3_def)
      show ?thesis
      proof (cases answer)
        case Rejected
        with eq3 have "r = Inl NetworkError" and "s' = logout_detached s3" by simp_all
        with True Inr Rejected rq det b3 show ?thesis
          by (simp add: succeeded_def bye s3_def)
      next
        case (Resolved rstatus rp)
        show ?thesis
        proof (cases "ok rstatus")
          case True
          with eq3 Resolved have "r = json rp" and "s' = s3" by simp_all
          with \<open>unauthorized response \<and> endpoint \<noteq> ''/refresh''\<close> Inr Resolved True rq det
          show ?thesis
            by (simp add: succeeded_def parsed_def s3_def)
        next
          case False
          with eq3 Resolved have "r = Inl (Error ''Retry failed'')" and "s' = logout_detached s3"
            by simp_all
          with \<open>unauthorized response \<and> endpoint \<noteq> ''/refresh''\<close> Inr Resolved False rq det b3
          show ?thesis
            by (simp add: succeeded_def bye s3_def)
        qed
      qed
    qed
  qed
qed


lemma apiCall_sent:
  assumes call: "apiCall endpoint m b s = (r, s')"
  shows "\<exists>rest. requests s' = requests s @ (endpoint, build_options m b s) # rest
      \<and> length (filter (\<lambda>q. fst q = endpoint) rest)
            \<le> 1 + (length (detached s') - length (detached s))
      \<and> (endpoint \<noteq> ''/logout'' \<longrightarrow> length (filter (\<lambda>q. fst q = endpoint) rest) \<le> 1)"
proof -
  define options where "options = build_options m b s"
  define s1 where "s1 = s\<lparr>requests := requests s @ [(endpoint, options)]\<rparr>"
  define response where "response = server s (requests s1)"
  obtain rr s2 where rt: "refreshToken s1 = (rr, s2)" by (cases "refreshToken s1")
  define again where "again = (endpoint, options\<lparr>authorization :=
                    Some (''Bearer '' @ to_string (access (authState s2)))\<rparr>)"
  define answer where "answer = server s (requests s2 @ [again])"
  define bye where "bye = (''/logout'', build_options ''POST'' JNull s2)"
  note sh = apiCall_shape [OF call options_def s1_def response_def rt again_def answer_def bye_def]
  have r2: "requests s2 = requests s @ (endpoint, options) #
              (if truthy (getStoredRefresh s1) then [refresh_request s1] else [])"
    using refreshToken_frame(8) [OF rt] by (simp add: s1_def)
  have fr: "fst (refresh_request s1) = ''/refresh''" by (simp add: refresh_request_def)
  have fa: "fst again = endpoint" by (simp add: again_def)
  have fb: "fst bye = ''/logout''" by (simp add: bye_def)
  show ?thesis
  proof (cases "unauthorized response \<and> endpoint \<noteq> ''/refresh''")
    case False
    with sh have "requests s' = requests s @ [(endpoint, options)]" and "detached s' = detached s"
      by auto
    then show ?thesis by (simp add: options_def)
  next
    case True
    show ?thesis
    proof (cases "isl rr")
      case isl: True
      with sh True have q: "requests s' = requests s2 @ [bye]"
        and d: "length (detached s') = Suc (length (detached s))" by auto
      show ?thesis
        using True fr fb unfolding q r2 d by (auto simp: options_def)
    next
      case nisl: False
      show ?thesis
      proof (cases "succeeded answer")
        case True
        with sh nisl \<open>unauthorized response \<and> endpoint \<noteq> ''/refresh''\<close>
        have q: "requests s' = requests s2 @ [again]"
          and q2: "requests s2 = requests s @ [(endpoint, options), refresh_request s1]"
          by auto
        show ?thesis
          using \<open>unauthorized response \<and> endpoint \<noteq> ''/refresh''\<close> fr fa
          unfolding q q2 by (auto simp: options_def)
      next
        case False
        with sh nisl \<open>unauthorized response \<and> endpoint \<noteq> ''/refresh''\<close>
        have q: "requests s' = requests s2 @ [again, bye]"
          and q2: "requests s2 = requests s @ [(endpoint, options), refresh_request s1]"
          and d: "length (detached s') = Suc (length (detached s))"
          by auto
        show ?thesis
          using \<open>unauthorized response \<and> endpoint \<noteq> ''/refresh''\<close> fr fa fb
          unfolding q q2 d by (auto simp: options_def)
      qed
    qed
  qed
qed

section \<open>Running the scenarios\<close>

lemmas run =
  init_def reloaded_def service_def tokens_def offline_def broken_def careless_def
  apiCall.simps apiCall_resume.simps refreshToken.simps login_def logout_def logout_settle_def
  initAuth_def tick_def resume_def logout_detached_def startAutoRefresh_def stopAutoRefresh_def
  setInterval_def clearInterval_def setStoredRefresh_def getStoredRefresh_def build_options_def
  console_error_def location_replace_def json_def ok_def failure_def Let_def

lemma signed_in_eq:
  "signed_in =
     \<lparr>authState = \<lparr>access = JStr ''A1'', refresh = JStr ''R1'',
                    user = JObj [(''email'', JStr ''a@x.com''), (''role'', JStr ''admin'')]\<rparr>,
      refreshInterval = Some 1, localStorage = Some ''R1'', intervals = [1], last_handle = 1,
      server = service,
      requests = [(''/login'', \<lparr>http_method = ''POST'', content_type = ''application/json'',
                     authorization = None,
                     body = Some (JObj [(''email'', JStr ''a@x.com''), (''password'', JStr ''pw'')])\<rparr>)],
      location = [], console = [], detached = []\<rparr>"
  by (simp add: signed_in_def run)

lemma cut_off_eq:
  "cut_off =
     \<lparr>authState = \<lparr>access = JStr ''A1'', refresh = JStr ''R1'',
                    user = JObj [(''email'', JStr ''a@x.com''), (''role'', JStr ''admin'')]\<rparr>,
      refreshInterval = Some 1, localStorage = Some ''R1'', intervals = [1], last_handle = 1,
      server = unplugged,
      requests = [(''/login'', \<lparr>http_method = ''POST'', content_type = ''application/json'',
                     authorization = None,
                     body = Some (JObj [(''email'', JStr ''a@x.com''), (''password'', JStr ''pw'')])\<rparr>)],
      location = [], console = [], detached = []\<rparr>"
  by (simp add: cut_off_def unplugged_def run)

section \<open>The claims\<close>

subsection \<open>C1: one retry after a 401\<close>

text \<open>
  Claim C1. For every call \<open>apiCall endpoint m b\<close>, with \<open>options\<close> the options it
  builds, \<open>response\<close> the answer to its request, \<open>refreshToken\<close> run after that answer
  giving \<open>rr\<close>, \<open>again\<close> the request with the same endpoint, method and body and the
  access credential of the Session after that refresh, and \<open>bye\<close> the request of a
  detached \<open>logout()\<close>:
  \<^item> the answer is 401, the endpoint is not \<open>/refresh\<close> and the refresh fails: the call
    fails with the error of the refresh, nothing is sent again, one \<open>logout()\<close> is started;
  \<^item> the answer is 401, the endpoint is not \<open>/refresh\<close> and the refresh succeeds: the
    requests sent are the first one, the one of the refresh and \<open>again\<close>; if the answer
    to \<open>again\<close> is 2xx its body is the result and no \<open>logout()\<close> is started, otherwise
    the call fails and exactly one \<open>logout()\<close> is started;
  \<^item> the answer is not 401, or the endpoint is \<open>/refresh\<close> (whatever the answer): one
    request is sent, no refresh, no retry, no \<open>logout()\<close>;
  \<^item> in every case, after the first request at most one more goes to the endpoint, not
    counting the request that a \<open>logout()\<close> started by the call sends to \<open>/logout\<close>.
\<close>

theorem apiCall_retries_once:
  assumes call: "apiCall endpoint m b s = (r, s')"
    and opts: "options = build_options m b s"
    and sent: "s1 = s\<lparr>requests := requests s @ [(endpoint, options)]\<rparr>"
    and resp: "response = server s (requests s1)"
    and rt: "refreshToken s1 = (rr, s2)"
    and again: "again = (endpoint, options\<lparr>authorization :=
                    Some (''Bearer '' @ to_string (access (authState s2)))\<rparr>)"
    and answer: "answer = server s (requests s2 @ [again])"
    and bye: "bye = (''/logout'', build_options ''POST'' JNull s2)"
  shows "(unauthorized response \<and> endpoint \<noteq> ''/refresh'' \<and> isl rr \<longrightarrow>
            r = rr \<and> requests s' = requests s2 @ [bye]
            \<and> length (detached s') = Suc (length (detached s)))
    \<and> (unauthorized response \<and> endpoint \<noteq> ''/refresh'' \<and> \<not> isl rr \<longrightarrow>
            requests s2 = requests s @ [(endpoint, options), refresh_request s1]
            \<and> (succeeded answer \<longrightarrow>
                  r = parsed answer \<and> requests s' = requests s2 @ [again]
                  \<and> detached s' = detached s)
            \<and> (\<not> succeeded answer \<longrightarrow>
                  r = Inl (if answer = Rejected then NetworkError else Error ''Retry failed'')
                  \<and> requests s' = requests s2 @ [again, bye]
                  \<and> length (detached s') = Suc (length (detached s))))
    \<and> (\<not> unauthorized response \<or> endpoint = ''/refresh'' \<longrightarrow>
            requests s' = requests s @ [(endpoint, options)] \<and> detached s' = detached s)
    \<and> (\<exists>rest. requests s' = requests s @ (endpoint, build_options m b s) # rest
          \<and> length (filter (\<lambda>q. fst q = endpoint) rest)
                \<le> 1 + (length (detached s') - length (detached s))
          \<and> (endpoint \<noteq> ''/logout'' \<longrightarrow>
                length (filter (\<lambda>q. fst q = endpoint) rest) \<le> 1))"
  using apiCall_shape [OF assms] apiCall_sent [OF call] by blast

text \<open>
  The module is loaded over a stored credential and \<open>/orders\<close> is called: 401, the refresh
  succeeds, the retry carries the new access credential and succeeds. The same call with
  nothing stored: 401, the refresh fails, one \<open>logout()\<close> is started. A 401 on
  \<open>/refresh\<close> itself: one request.
\<close>

theorem apiCall_retries_once_witness:
  "fst (apiCall ''/orders'' ''GET'' JNull reloaded) = Inr (JObj [(''orders'', JStr ''none'')])
   \<and> map fst (requests (snd (apiCall ''/orders'' ''GET'' JNull reloaded)))
       = [''/orders'', ''/refresh'', ''/orders'']
   \<and> map (authorization \<circ> snd) (requests (snd (apiCall ''/orders'' ''GET'' JNull reloaded)))
       = [None, None, Some ''Bearer A2'']
   \<and> detached (snd (apiCall ''/orders'' ''GET'' JNull reloaded)) = []
   \<and> fst (apiCall ''/orders'' ''GET'' JNull (init None service))
       = Inl (Error ''No hay refresh token'')
   \<and> map fst (requests (snd (apiCall ''/orders'' ''GET'' JNull (init None service))))
       = [''/orders'', ''/logout'']
   \<and> length (detached (snd (apiCall ''/orders'' ''GET'' JNull (init None service)))) = 1
   \<and> map fst (requests (snd (apiCall ''/refresh'' ''POST'' JNull (init None service))))
       = [''/refresh'']"
  using
    apiCall_retries_once [where endpoint = "''/orders''" and m = "''GET''" and b = JNull
      and s = reloaded,
      OF prod.collapse [symmetric] refl refl refl prod.collapse [symmetric] refl refl refl]
    apiCall_retries_once [where endpoint = "''/orders''" and m = "''GET''" and b = JNull
      and s = "init None service",
      OF prod.collapse [symmetric] refl refl refl prod.collapse [symmetric] refl refl refl]
    apiCall_retries_once [where endpoint = "''/refresh''" and m = "''POST''" and b = JNull
      and s = "init None service",
      OF prod.collapse [symmetric] refl refl refl prod.collapse [symmetric] refl refl refl]
  by (simp add: run refresh_request_def unauthorized_def succeeded_def parsed_def)

subsection \<open>C2: a failed login\<close>

text \<open>
  Claim C2, as stated, fails when \<open>/login\<close> answers 401. A user who is signed in logs in
  again with a wrong password: the answer is 401, \<open>apiCall\<close> renews the session with the
  stored credential (the Session and the store now hold the rotated credentials), sends
  the login again, gets 401 again, starts \<open>logout()\<close> (which stops the renewal timer at
  once) and fails with "Retry failed".
\<close>

theorem login_401_counterexample:
  "server signed_in (requests signed_in @ [(''/login'', build_options ''POST''
        (JObj [(''email'', JStr ''a@x.com''), (''password'', JStr ''wrong'')]) signed_in)])
     = Resolved 401 (Json (JObj [(''error'', JStr ''Credenciales incorrectas'')]))
   \<and> fst (login (JStr ''a@x.com'') (JStr ''wrong'') signed_in) = Inl (Error ''Retry failed'')
   \<and> access (authState signed_in) = JStr ''A1''
   \<and> access (authState (snd (login (JStr ''a@x.com'') (JStr ''wrong'') signed_in))) = JStr ''A2''
   \<and> localStorage signed_in = Some ''R1''
   \<and> localStorage (snd (login (JStr ''a@x.com'') (JStr ''wrong'') signed_in)) = Some ''R2''
   \<and> refreshInterval signed_in = Some 1
   \<and> refreshInterval (snd (login (JStr ''a@x.com'') (JStr ''wrong'') signed_in)) = None"
  unfolding signed_in_eq by (simp add: run)

text \<open>
  Claim C2, amended. For every \<open>login(email, password)\<close> whose request fails with a
  network error or with a status that is neither 2xx nor 401, the call fails with that
  error (NetworkError, or the message of the body) and the state is the one before the
  call with the request added to those sent: Session, Credential Store and renewal timer
  are as they were, no \<open>logout()\<close> is started and nothing navigates.
\<close>

theorem login_failure_keeps_state:
  assumes "response = server s (requests s @ [(''/login'', build_options ''POST''
              (JObj [(''email'', email), (''password'', password)]) s)])"
    and "\<not> succeeded response" and "\<not> unauthorized response"
  shows "login email password s =
      (Inl (case response of Rejected \<Rightarrow> NetworkError | Resolved status p \<Rightarrow> failure p),
       s\<lparr>requests := requests s @ [(''/login'', build_options ''POST''
              (JObj [(''email'', email), (''password'', password)]) s)]\<rparr>)
    \<and> authState (snd (login email password s)) = authState s
    \<and> localStorage (snd (login email password s)) = localStorage s
    \<and> refreshInterval (snd (login email password s)) = refreshInterval s
    \<and> intervals (snd (login email password s)) = intervals s
    \<and> detached (snd (login email password s)) = detached s
    \<and> location (snd (login email password s)) = location s"
proof -
  have sv: "server s (requests s @ [(''/login'', build_options ''POST''
              (JObj [(''email'', email), (''password'', password)]) s)]) = response"
    using assms(1) by simp
  have ac: "apiCall ''/login'' ''POST'' (JObj [(''email'', email), (''password'', password)]) s
      = apiRequest ''/login'' ''POST'' (JObj [(''email'', email), (''password'', password)]) s"
    using assms by (intro apiCall_plain) simp
  show ?thesis
  proof (cases response)
    case Rejected
    with sv show ?thesis
      by (simp add: login_def ac apiRequest_def Let_def)
  next
    case (Resolved status p)
    with assms(2) have "\<not> ok status" by (simp add: succeeded_def)
    with sv Resolved show ?thesis
      by (simp add: login_def ac apiRequest_def Let_def)
  qed
qed

text \<open>The service stops answering, or answers 500, while the user is signed in.\<close>

theorem login_failure_keeps_state_witness:
  "login (JStr ''a@x.com'') (JStr ''pw'') (signed_in\<lparr>server := offline\<rparr>)
     = (Inl NetworkError,
        signed_in\<lparr>server := offline,
          requests := requests signed_in @ [(''/login'', build_options ''POST''
              (JObj [(''email'', JStr ''a@x.com''), (''password'', JStr ''pw'')]) signed_in)]\<rparr>)
   \<and> fst (login (JStr ''a@x.com'') (JStr ''pw'') (signed_in\<lparr>server := broken\<rparr>))
       = Inl (Error ''Error desconocido'')
   \<and> authState (snd (login (JStr ''a@x.com'') (JStr ''pw'') (signed_in\<lparr>server := broken\<rparr>)))
       = authState signed_in
   \<and> localStorage (snd (login (JStr ''a@x.com'') (JStr ''pw'') (signed_in\<lparr>server := broken\<rparr>)))
       = Some ''R1''
   \<and> refreshInterval (snd (login (JStr ''a@x.com'') (JStr ''pw'') (signed_in\<lparr>server := broken\<rparr>)))
       = Some 1"
  using
    login_failure_keeps_state [where s = "signed_in\<lparr>server := offline\<rparr>"
      and email = "JStr ''a@x.com''" and password = "JStr ''pw''", OF refl]
    login_failure_keeps_state [where s = "signed_in\<lparr>server := broken\<rparr>"
      and email = "JStr ''a@x.com''" and password = "JStr ''pw''", OF refl]
  unfolding signed_in_eq
  by (simp add: offline_def broken_def succeeded_def unauthorized_def ok_def failure_def
      build_options_def)

subsection \<open>C3: logout always completes locally\<close>

text \<open>
  A call of \<open>logout()\<close> that is not awaited is \<open>logout_detached\<close> at the call and
  \<open>resume\<close> at its completion; resumed at once, it is the awaited \<open>logout\<close>.
\<close>

lemma resume_logout_detached:
  "resume (length (detached s)) (logout_detached s) = snd (logout s)"
proof -
  have same: "(stopAutoRefresh s)\<lparr>requests := q, detached := detached s\<rparr>
      = (stopAutoRefresh s)\<lparr>requests := q\<rparr>" for q
    by (simp add: stopAutoRefresh_def clearInterval_def split: option.splits)
  show ?thesis
    by (simp add: resume_def logout_detached_def logout_def apiCall_unfold Let_def same)
qed

lemma resume_completes:
  assumes "k < length (detached s)"
  shows "authState (resume k s) = \<lparr>access = JNull, refresh = JNull, user = JNull\<rparr>
    \<and> localStorage (resume k s) = None
    \<and> location (resume k s) = location s @ [''/index.html'']
    \<and> (refreshInterval s = None \<and> intervals s = [] \<longrightarrow>
          refreshInterval (resume k s) = None \<and> intervals (resume k s) = [])
    \<and> console (resume k s) =
        (case fst (apiCall_resume ''/logout'' (fst (detached s ! k)) (snd (detached s ! k))
                     (s\<lparr>detached := take k (detached s) @ drop (Suc k) (detached s)\<rparr>)) of
           Inl e \<Rightarrow> console s @ [e]
         | Inr v \<Rightarrow> console s)"
proof -
  obtain options response where d: "detached s ! k = (options, response)"
    by (cases "detached s ! k")
  obtain r s2 where c: "apiCall_resume ''/logout'' options response
      (s\<lparr>detached := take k (detached s) @ drop (Suc k) (detached s)\<rparr>) = (r, s2)"
    by (cases "apiCall_resume ''/logout'' options response
      (s\<lparr>detached := take k (detached s) @ drop (Suc k) (detached s)\<rparr>)")
  have "location s2 = location s \<and> console s2 = console s"
    using apiCall_resume_keeps [OF c] by simp
  moreover have "refreshInterval s2 = None \<and> intervals s2 = []"
    if "refreshInterval s = None \<and> intervals s = []"
    using stopped_apiCall_resume [OF c] that by simp
  ultimately show ?thesis
    using assms by (simp add: resume_def d c split: sum.splits)
qed

text \<open>
  Claim C3. For every call of \<open>logout()\<close> in a state the module gets into, and whatever
  the remote service does with the logout request (2xx, another status, no answer).
  \<^item> Awaited to its end (\<open>logout\<close>): the call returns normally (undefined, never an
    error), the renewal timer is stopped, the error of the remote call, if any, goes to
    the console and nowhere else, the Session is all null, the slot of the Credential
    Store is removed, and the page navigates to \<open>/index.html\<close>.
  \<^item> Not awaited, as the module itself calls it (lines 61 and 138): at the call
    (\<open>logout_detached\<close>) the renewal timer is stopped and the logout request is sent; at
    its completion (\<open>resume k\<close>, whatever ran in between) the Session is all null, the
    slot is removed, the page navigates to \<open>/index.html\<close>, the error of the remote call
    goes to the console only, the promise is fulfilled with undefined, and a timer that
    is stopped stays stopped. Completed at once, the call is the awaited one.
  The timer is stopped at the call and not again at the completion: a login that runs
  between the two leaves its own timer running.
\<close>

theorem logout_always_cleans_up:
  assumes "reachable s"
  shows "fst (logout s) = Inr JUndefined
    \<and> refreshInterval (snd (logout s)) = None
    \<and> intervals (snd (logout s)) = []
    \<and> authState (snd (logout s)) = \<lparr>access = JNull, refresh = JNull, user = JNull\<rparr>
    \<and> localStorage (snd (logout s)) = None
    \<and> location (snd (logout s)) = location s @ [''/index.html'']
    \<and> console (snd (logout s)) =
        (case fst (apiCall ''/logout'' ''POST'' JNull (stopAutoRefresh s)) of
           Inl e \<Rightarrow> console s @ [e]
         | Inr v \<Rightarrow> console s)
    \<and> refreshInterval (logout_detached s) = None
    \<and> intervals (logout_detached s) = []
    \<and> requests (logout_detached s) = requests s @ [(''/logout'', build_options ''POST'' JNull s)]
    \<and> length (detached (logout_detached s)) = Suc (length (detached s))
    \<and> resume (length (detached s)) (logout_detached s) = snd (logout s)
    \<and> fst (logout_settle c) = Inr JUndefined
    \<and> (k < length (detached s) \<longrightarrow>
          authState (resume k s) = \<lparr>access = JNull, refresh = JNull, user = JNull\<rparr>
          \<and> localStorage (resume k s) = None
          \<and> location (resume k s) = location s @ [''/index.html'']
          \<and> (refreshInterval s = None \<longrightarrow>
                refreshInterval (resume k s) = None \<and> intervals (resume k s) = [])
          \<and> console (resume k s) =
              (case fst (apiCall_resume ''/logout'' (fst (detached s ! k)) (snd (detached s ! k))
                           (s\<lparr>detached := take k (detached s) @ drop (Suc k) (detached s)\<rparr>)) of
                 Inl e \<Rightarrow> console s @ [e]
               | Inr v \<Rightarrow> console s))"
proof -
  have inv: "timer_inv s" using assms by (rule reachable_timer_inv)
  obtain r s2 where c: "apiCall ''/logout'' ''POST'' JNull (stopAutoRefresh s) = (r, s2)"
    by (cases "apiCall ''/logout'' ''POST'' JNull (stopAutoRefresh s)")
  have "refreshInterval s2 = None \<and> intervals s2 = []"
    using stopped_apiCall [OF c] stopAutoRefresh_stops [OF inv] by simp
  moreover have "location s2 = location s \<and> console s2 = console s"
    using apiCall_keeps [OF c] by simp
  ultimately have awaited: "fst (logout s) = Inr JUndefined
    \<and> refreshInterval (snd (logout s)) = None
    \<and> intervals (snd (logout s)) = []
    \<and> authState (snd (logout s)) = \<lparr>access = JNull, refresh = JNull, user = JNull\<rparr>
    \<and> localStorage (snd (logout s)) = None
    \<and> location (snd (logout s)) = location s @ [''/index.html'']
    \<and> console (snd (logout s)) =
        (case fst (apiCall ''/logout'' ''POST'' JNull (stopAutoRefresh s)) of
           Inl e \<Rightarrow> console s @ [e]
         | Inr v \<Rightarrow> console s)"
    by (simp add: logout_def Let_def c split: sum.splits)
  have called: "refreshInterval (logout_detached s) = None
    \<and> intervals (logout_detached s) = []
    \<and> requests (logout_detached s) = requests s @ [(''/logout'', build_options ''POST'' JNull s)]
    \<and> length (detached (logout_detached s)) = Suc (length (detached s))"
    using stopAutoRefresh_stops [OF inv] by simp
  have settled: "fst (logout_settle c) = Inr JUndefined"
    by (cases c) simp
  have none: "intervals s = []" if "refreshInterval s = None"
    using inv that by (simp add: timer_inv_def)
  have completed: "authState (resume k s) = \<lparr>access = JNull, refresh = JNull, user = JNull\<rparr>
          \<and> localStorage (resume k s) = None
          \<and> location (resume k s) = location s @ [''/index.html'']
          \<and> (refreshInterval s = None \<longrightarrow>
                refreshInterval (resume k s) = None \<and> intervals (resume k s) = [])
          \<and> console (resume k s) =
              (case fst (apiCall_resume ''/logout'' (fst (detached s ! k)) (snd (detached s ! k))
                           (s\<lparr>detached := take k (detached s) @ drop (Suc k) (detached s)\<rparr>)) of
                 Inl e \<Rightarrow> console s @ [e]
               | Inr v \<Rightarrow> console s)"
    if "k < length (detached s)"
    using resume_completes [OF that] none by blast
  from awaited called settled completed resume_logout_detached [of s]
  show ?thesis by blast
qed

text \<open>
  The user is signed in and the network is down. \<open>logout()\<close> is called and awaited. Or
  the timer ticks: the refresh fails, the tick calls \<open>logout()\<close> without awaiting it, and
  that call completes later.
\<close>

theorem logout_always_cleans_up_witness:
  "reachable cut_off
   \<and> fst (logout cut_off) = Inr JUndefined
   \<and> refreshInterval (snd (logout cut_off)) = None
   \<and> intervals (snd (logout cut_off)) = []
   \<and> authState (snd (logout cut_off)) = \<lparr>access = JNull, refresh = JNull, user = JNull\<rparr>
   \<and> localStorage (snd (logout cut_off)) = None
   \<and> location (snd (logout cut_off)) = [''/index.html'']
   \<and> console (snd (logout cut_off)) = [NetworkError]
   \<and> refreshInterval (logout_detached cut_off) = None
   \<and> intervals (logout_detached cut_off) = []
   \<and> reachable (tick cut_off)
   \<and> 0 < length (detached (tick cut_off))
   \<and> refreshInterval (tick cut_off) = None
   \<and> authState (resume 0 (tick cut_off)) = \<lparr>access = JNull, refresh = JNull, user = JNull\<rparr>
   \<and> localStorage (resume 0 (tick cut_off)) = None
   \<and> location (resume 0 (tick cut_off)) = [''/index.html'']
   \<and> refreshInterval (resume 0 (tick cut_off)) = None
   \<and> intervals (resume 0 (tick cut_off)) = []"
proof -
  have r: "reachable cut_off"
    unfolding cut_off_def by (rule reachable.login [OF reachable.loaded])
  have i: "1 \<in> set (intervals cut_off)"
    by (simp add: cut_off_eq)
  have r': "reachable (tick cut_off)"
    using r i by (rule reachable.tick)
  have l: "location cut_off = []" and c: "console cut_off = []"
    by (simp_all add: cut_off_eq)
  have a: "fst (apiCall ''/logout'' ''POST'' JNull (stopAutoRefresh cut_off)) = Inl NetworkError"
    unfolding cut_off_eq by (simp add: run unplugged_def)
  have t: "0 < length (detached (tick cut_off))" "refreshInterval (tick cut_off) = None"
    "location (tick cut_off) = []"
    unfolding cut_off_eq by (simp_all add: run unplugged_def)
  from logout_always_cleans_up [OF r, of undefined 0]
    logout_always_cleans_up [OF r', of undefined 0] r r' t
  show ?thesis
    by (simp add: l c a)
qed

subsection \<open>C4: the refresh credential in memory and in the store\<close>

text \<open>
  Claim C4, as stated, fails: a login succeeds with a response whose refresh token is the
  empty string; the Session then holds the empty string as its refresh credential and the
  slot of the Credential Store is removed, so the two differ.
\<close>

theorem mirrored_counterexample:
  "fst (login (JStr ''a@x.com'') (JStr ''pw'') (init None careless)) = Inr (tokens ''A1'' [])
   \<and> refresh (authState (snd (login (JStr ''a@x.com'') (JStr ''pw'') (init None careless))))
       = JStr []
   \<and> localStorage (snd (login (JStr ''a@x.com'') (JStr ''pw'') (init None careless))) = None
   \<and> \<not> mirrored (snd (login (JStr ''a@x.com'') (JStr ''pw'') (init None careless)))"
  by (simp add: run mirrored_def credential_def)

text \<open>
  Claim C4, amended. After every successful login, refresh or initAuth whose response
  carries a non-empty string as refresh token, the refresh credential of the Session and
  the value held in the Credential Store are both that string; after every logout both
  are absent (null in the Session, the slot removed).
\<close>

theorem refresh_credential_mirrors_store:
  "(login email password s = (Inr res, s')
      \<and> get_prop res ''refreshToken'' = Inr (JStr t) \<and> t \<noteq> [] \<longrightarrow>
        refresh (authState s') = JStr t \<and> localStorage s' = Some t \<and> mirrored s')
   \<and> (refreshToken s = (Inr res, s')
      \<and> get_prop res ''refreshToken'' = Inr (JStr t) \<and> t \<noteq> [] \<longrightarrow>
        refresh (authState s') = JStr t \<and> localStorage s' = Some t \<and> mirrored s')
   \<and> (initAuth s = (Inr res, s')
      \<and> get_prop res ''refreshToken'' = Inr (JStr t) \<and> t \<noteq> [] \<longrightarrow>
        refresh (authState s') = JStr t \<and> localStorage s' = Some t \<and> mirrored s')
   \<and> refresh (authState (snd (logout s))) = JNull
   \<and> localStorage (snd (logout s)) = None
   \<and> mirrored (snd (logout s))"
proof -
  have a: "refresh (authState s') = JStr t \<and> localStorage s' = Some t \<and> mirrored s'"
    if "login email password s = (Inr res, s')"
      and "get_prop res ''refreshToken'' = Inr (JStr t)" and "t \<noteq> []"
    using login_success [OF that(1)] that(2,3)
    by (auto simp: setStoredRefresh_def mirrored_def credential_def)
  have b: "refresh (authState s') = JStr t \<and> localStorage s' = Some t \<and> mirrored s'"
    if "refreshToken s = (Inr res, s')"
      and "get_prop res ''refreshToken'' = Inr (JStr t)" and "t \<noteq> []"
    for s s'
    using refreshToken_success [OF that(1)] that(2,3)
    by (auto simp: setStoredRefresh_def mirrored_def credential_def)
  have c: "refresh (authState s') = JStr t \<and> localStorage s' = Some t \<and> mirrored s'"
    if "initAuth s = (Inr res, s')"
      and "get_prop res ''refreshToken'' = Inr (JStr t)" and "t \<noteq> []"
  proof -
    from that(1) obtain s1 where "refreshToken s = (Inr res, s1)" and "s' = startAutoRefresh s1"
      by (auto simp: initAuth_def Let_def split: if_splits prod.splits sum.splits)
    with b [OF _ that(2,3)] show ?thesis
      by (simp add: mirrored_def credential_def)
  qed
  obtain r s2 where l: "apiCall ''/logout'' ''POST'' JNull (stopAutoRefresh s) = (r, s2)"
    by (cases "apiCall ''/logout'' ''POST'' JNull (stopAutoRefresh s)")
  have d: "refresh (authState (snd (logout s))) = JNull
     \<and> localStorage (snd (logout s)) = None \<and> mirrored (snd (logout s))"
    by (simp add: logout_def Let_def l mirrored_def credential_def)
  from a b c d show ?thesis by blast
qed

text \<open>
  The login of the known account, the refresh and the initAuth of the reloaded module, and
  the logout of the signed-in user.
\<close>

theorem refresh_credential_mirrors_store_witness:
  "fst (login (JStr ''a@x.com'') (JStr ''pw'') (init None service)) = Inr (tokens ''A1'' ''R1'')
   \<and> get_prop (tokens ''A1'' ''R1'') ''refreshToken'' = Inr (JStr ''R1'')
   \<and> refresh (authState signed_in) = JStr ''R1'' \<and> localStorage signed_in = Some ''R1''
   \<and> mirrored signed_in
   \<and> fst (refreshToken reloaded) = Inr (tokens ''A2'' ''R2'')
   \<and> mirrored (snd (refreshToken reloaded))
   \<and> fst (initAuth reloaded) = Inr (tokens ''A2'' ''R2'')
   \<and> localStorage (snd (initAuth reloaded)) = Some ''R2''
   \<and> mirrored (snd (initAuth reloaded))
   \<and> mirrored (snd (logout signed_in))"
proof -
  have l: "login (JStr ''a@x.com'') (JStr ''pw'') (init None service)
      = (Inr (tokens ''A1'' ''R1''), signed_in)"
    unfolding signed_in_eq by (simp add: run)
  have g1: "get_prop (tokens ''A1'' ''R1'') ''refreshToken'' = Inr (JStr ''R1'')"
    and g2: "get_prop (tokens ''A2'' ''R2'') ''refreshToken'' = Inr (JStr ''R2'')"
    by (simp_all add: tokens_def)
  have fr: "fst (refreshToken reloaded) = Inr (tokens ''A2'' ''R2'')"
    and fi: "fst (initAuth reloaded) = Inr (tokens ''A2'' ''R2'')"
    by (simp_all add: run)
  have r: "refreshToken reloaded = (Inr (tokens ''A2'' ''R2''), snd (refreshToken reloaded))"
    and i: "initAuth reloaded = (Inr (tokens ''A2'' ''R2''), snd (initAuth reloaded))"
    using fr fi by (simp_all add: prod_eq_iff)
  note t = refresh_credential_mirrors_store
  have "refresh (authState signed_in) = JStr ''R1'' \<and> localStorage signed_in = Some ''R1''
      \<and> mirrored signed_in"
    using t [of "JStr ''a@x.com''" "JStr ''pw''" "init None service" "tokens ''A1'' ''R1''"
          signed_in "''R1''"] l g1 by simp
  moreover have "mirrored (snd (refreshToken reloaded))"
    using t [of JNull JNull reloaded "tokens ''A2'' ''R2''" "snd (refreshToken reloaded)" "''R2''"]
      r g2 by simp
  moreover have "localStorage (snd (initAuth reloaded)) = Some ''R2''
      \<and> mirrored (snd (initAuth reloaded))"
    using t [of JNull JNull reloaded "tokens ''A2'' ''R2''" "snd (initAuth reloaded)" "''R2''"]
      i g2 by simp
  moreover have "mirrored (snd (logout signed_in))"
    using t [of JNull JNull signed_in JNull signed_in "[]"] by simp
  ultimately show ?thesis
    using l g1 fr fi by simp
qed

subsection \<open>C5: refresh with nothing stored\<close>

text \<open>
  Claim C5. For every \<open>refresh()\<close> made while the Credential Store holds no refresh
  credential (the slot is absent, or it holds the empty string), the call fails with the
  error "No hay refresh token" and the state after it is the state before it: no request
  is sent, no \<open>logout()\<close> is started, Session and Credential Store are unchanged.
\<close>

theorem refreshToken_no_credential:
  assumes "\<not> truthy (getStoredRefresh s)"
  shows "refreshToken s = (Inl (Error ''No hay refresh token''), s)
    \<and> requests (snd (refreshToken s)) = requests s
    \<and> detached (snd (refreshToken s)) = detached s
    \<and> authState (snd (refreshToken s)) = authState s
    \<and> localStorage (snd (refreshToken s)) = localStorage s"
  using assms by (simp add: refreshToken.simps)

theorem refreshToken_no_credential_witness:
  "\<not> truthy (getStoredRefresh (init None service))
   \<and> refreshToken (init None service) = (Inl (Error ''No hay refresh token''), init None service)
   \<and> requests (snd (refreshToken (init None service))) = []"
proof -
  have h: "\<not> truthy (getStoredRefresh (init None service))"
    by (simp add: getStoredRefresh_def init_def)
  from refreshToken_no_credential [OF h] h show ?thesis
    by (simp add: init_def)
qed

subsection \<open>C6: initAuth\<close>

text \<open>
  Claim C6. For every \<open>initAuth()\<close>: if the Credential Store holds no refresh credential
  it fails with the error "No autenticado" and the state is unchanged (no request is
  sent); otherwise it runs \<open>refreshToken\<close>: a failure of that refresh is the failure of
  \<open>initAuth\<close>, with the state the refresh left; on success the result is the one of the
  refresh and the renewal timer is started on the state the refresh left. In no case does
  \<open>initAuth\<close> navigate or start a \<open>logout()\<close>.
\<close>

theorem initAuth_resumes:
  "(\<not> truthy (getStoredRefresh s) \<longrightarrow> initAuth s = (Inl (Error ''No autenticado''), s))
   \<and> (truthy (getStoredRefresh s) \<longrightarrow>
        (\<forall>e s1. refreshToken s = (Inl e, s1) \<longrightarrow> initAuth s = (Inl e, s1))
      \<and> (\<forall>res s1. refreshToken s = (Inr res, s1) \<longrightarrow>
            initAuth s = (Inr res, startAutoRefresh s1)
          \<and> refreshInterval (snd (initAuth s)) = Some (Suc (last_handle s))
          \<and> Suc (last_handle s) \<in> set (intervals (snd (initAuth s)))))
   \<and> location (snd (initAuth s)) = location s
   \<and> detached (snd (initAuth s)) = detached s"
  by (auto simp: initAuth_def Let_def startAutoRefresh_def setInterval_def
      dest: refreshToken_frame split: prod.splits sum.splits)

text \<open>
  The module loaded with an empty store, and loaded over the stored credential R1: the
  store then holds R2 and the renewal timer is active.
\<close>

theorem initAuth_resumes_witness:
  "\<not> truthy (getStoredRefresh (init None service))
   \<and> initAuth (init None service) = (Inl (Error ''No autenticado''), init None service)
   \<and> truthy (getStoredRefresh reloaded)
   \<and> fst (initAuth reloaded) = Inr (tokens ''A2'' ''R2'')
   \<and> localStorage (snd (initAuth reloaded)) = Some ''R2''
   \<and> refreshInterval (snd (initAuth reloaded)) = Some 1
   \<and> intervals (snd (initAuth reloaded)) = [1]
   \<and> location (snd (initAuth reloaded)) = []
   \<and> detached (snd (initAuth reloaded)) = []"
  using initAuth_resumes [of "init None service"] initAuth_resumes [of reloaded]
  by (simp add: run)

subsection \<open>C7: one renewal timer\<close>

text \<open>
  Claim C7. In every state the module gets into, at most one renewal timer is active, and
  it is the one whose handle the module holds. From such a state,
  \<open>startAutoRefresh()\<close> leaves exactly one timer active, a new one, the former one
  cancelled; \<open>stopAutoRefresh()\<close> leaves none, and a second call right after it changes
  nothing; a tick of the timer runs \<open>refreshToken\<close> and starts a \<open>logout()\<close> if and
  only if that refresh fails (when it succeeds, the tick does nothing more than the
  refresh).
\<close>

theorem one_renewal_timer:
  assumes "reachable s"
  shows "length (intervals s) \<le> 1
    \<and> intervals s = (case refreshInterval s of None \<Rightarrow> [] | Some h \<Rightarrow> [h])
    \<and> intervals (startAutoRefresh s) = [Suc (last_handle s)]
    \<and> refreshInterval (startAutoRefresh s) = Some (Suc (last_handle s))
    \<and> Suc (last_handle s) \<notin> set (intervals s)
    \<and> intervals (stopAutoRefresh s) = []
    \<and> refreshInterval (stopAutoRefresh s) = None
    \<and> stopAutoRefresh (stopAutoRefresh s) = stopAutoRefresh s
    \<and> (isl (fst (refreshToken s)) \<longleftrightarrow> length (detached (tick s)) = Suc (length (detached s)))
    \<and> (\<not> isl (fst (refreshToken s)) \<longrightarrow> tick s = snd (refreshToken s))
    \<and> (isl (fst (refreshToken s)) \<longrightarrow>
          requests (tick s) =
            requests (snd (refreshToken s))
              @ [(''/logout'', build_options ''POST'' JNull (snd (refreshToken s)))])"
proof -
  have inv: "timer_inv s" using assms by (rule reachable_timer_inv)
  obtain r s1 where rt: "refreshToken s = (r, s1)" by (cases "refreshToken s")
  have a: "length (intervals s) \<le> 1
    \<and> intervals s = (case refreshInterval s of None \<Rightarrow> [] | Some h \<Rightarrow> [h])
    \<and> Suc (last_handle s) \<notin> set (intervals s)"
    using inv by (auto simp: timer_inv_def split: option.splits)
  have b: "stopAutoRefresh (stopAutoRefresh s) = stopAutoRefresh s"
    by (simp add: stopAutoRefresh_def clearInterval_def split: option.splits)
  have c: "(isl (fst (refreshToken s)) \<longleftrightarrow>
        length (detached (tick s)) = Suc (length (detached s)))
     \<and> (\<not> isl (fst (refreshToken s)) \<longrightarrow> tick s = snd (refreshToken s))
     \<and> (isl (fst (refreshToken s)) \<longrightarrow>
          requests (tick s) =
            requests (snd (refreshToken s))
              @ [(''/logout'', build_options ''POST'' JNull (snd (refreshToken s)))])"
    using refreshToken_keeps [OF rt]
    by (cases r) (simp_all add: tick_def rt, simp_all add: console_error_def)
  from a b c startAutoRefresh_starts [OF inv] stopAutoRefresh_stops [OF inv]
  show ?thesis by blast
qed

text \<open>
  The signed-in user: one timer, with handle 1; starting again gives the timer 2 alone; a
  tick renews the session and starts no logout. The user whose network is down: the tick
  fails and starts one logout.
\<close>

theorem one_renewal_timer_witness:
  "reachable signed_in
   \<and> intervals signed_in = [1]
   \<and> intervals (startAutoRefresh signed_in) = [2]
   \<and> refreshInterval (startAutoRefresh signed_in) = Some 2
   \<and> intervals (stopAutoRefresh signed_in) = []
   \<and> tick signed_in = snd (refreshToken signed_in)
   \<and> reachable cut_off
   \<and> length (detached (tick cut_off)) = 1"
proof -
  have r: "reachable signed_in"
    unfolding signed_in_def by (rule reachable.login [OF reachable.loaded])
  have r': "reachable cut_off"
    unfolding cut_off_def by (rule reachable.login [OF reachable.loaded])
  have v: "last_handle signed_in = 1" "refreshInterval signed_in = Some 1"
    "detached cut_off = []"
    by (simp_all add: signed_in_eq cut_off_eq)
  have f: "fst (refreshToken signed_in) = Inr (tokens ''A2'' ''R2'')"
    unfolding signed_in_eq by (simp add: run)
  have f': "fst (refreshToken cut_off) = Inl NetworkError"
    unfolding cut_off_eq by (simp add: run unplugged_def)
  from one_renewal_timer [OF r] one_renewal_timer [OF r'] r r' show ?thesis
    by (simp add: v f f')
qed

subsection \<open>C8: the request of the refresh\<close>

text \<open>
  Claim C8. \<open>refreshToken\<close> is the refresh of the specification, which issues its request
  through the storage-only variant \<open>apiRequest\<close>: the source calls \<open>apiCall\<close> on the
  endpoint \<open>/refresh\<close>, where \<open>apiCall\<close> and \<open>apiRequest\<close> are the same function. A
  refresh sends at most its one request, whatever the answer (401 too), and starts no
  \<open>logout()\<close>.
\<close>

theorem refreshToken_is_storage_only:
  "refreshToken s = refreshToken_storage_only s
   \<and> apiCall ''/refresh'' m b s = apiRequest ''/refresh'' m b s
   \<and> requests (snd (refreshToken s)) =
       (if truthy (getStoredRefresh s) then requests s @ [refresh_request s] else requests s)
   \<and> detached (snd (refreshToken s)) = detached s"
proof -
  have "refreshToken s = refreshToken_storage_only s"
    unfolding refreshToken.simps [of s] refreshToken_storage_only_def apiCall_refresh_eq
    by (rule refl)
  moreover have "requests (snd (refreshToken s)) =
       (if truthy (getStoredRefresh s) then requests s @ [refresh_request s] else requests s)
     \<and> detached (snd (refreshToken s)) = detached s"
    using refreshToken_frame [of s "fst (refreshToken s)" "snd (refreshToken s)"] by simp
  ultimately show ?thesis
    using apiCall_refresh_eq by blast
qed

subsection \<open>C9: hasRole\<close>

text \<open>
  Claim C9, as stated, fails: with no user profile loaded (the module as loaded),
  \<open>hasRole("admin")\<close> is null, not the boolean false.
\<close>

theorem hasRole_counterexample:
  "hasRole [''admin''] (init None offline) = Inr JNull
   \<and> hasRole [''admin''] (init None offline) \<noteq> Inr (JBool False)"
  by (simp add: hasRole_def init_def)

text \<open>
  Claim C9, amended. For every call \<open>hasRole(r1, ..., rn)\<close> with strings as roles: the
  call never throws; when a user profile is loaded (the Session's user is truthy) the
  result is the boolean that says whether the profile's role is one of the strings; when
  none is loaded the result is the falsy value that the Session holds as user (null as
  loaded and after logout), not a boolean. So the result is the boolean true if and only
  if a profile is loaded and its role is among the roles asked for.
\<close>

theorem hasRole_result:
  "(truthy (user (authState s)) \<longrightarrow>
      hasRole roles s =
        Inr (JBool (\<exists>r \<in> set roles. get_prop (user (authState s)) ''role'' = Inr (JStr r))))
   \<and> (\<not> truthy (user (authState s)) \<longrightarrow> hasRole roles s = Inr (user (authState s)))
   \<and> (\<exists>v. hasRole roles s = Inr v)
   \<and> (hasRole roles s = Inr (JBool True) \<longleftrightarrow>
        truthy (user (authState s))
        \<and> (\<exists>r \<in> set roles. get_prop (user (authState s)) ''role'' = Inr (JStr r)))"
  by (cases "user (authState s)") (auto simp: hasRole_def Let_def)

text \<open>After the login of the known account, an admin: admin yes, viewer no.\<close>

theorem hasRole_result_witness:
  "truthy (user (authState signed_in))
   \<and> hasRole [''admin''] signed_in = Inr (JBool True)
   \<and> hasRole [''viewer'', ''editor''] signed_in = Inr (JBool False)
   \<and> \<not> truthy (user (authState (init None service)))
   \<and> hasRole [''admin''] (init None service) = Inr JNull"
  using hasRole_result [of signed_in "[''admin'']"]
    hasRole_result [of signed_in "[''viewer'', ''editor'']"]
    hasRole_result [of "init None service" "[''admin'']"]
  unfolding signed_in_eq by (simp add: init_def)

subsection \<open>C10: a falsy refresh credential\<close>

text \<open>
  Claim C10. Writing a falsy refresh credential removes the slot of the Credential Store.
  So for every login and every refresh that succeeds with a response whose refresh token
  is the empty string, the slot is absent afterwards and \<open>isAuthenticated()\<close> is false.
\<close>

theorem falsy_refresh_token_clears_store:
  "(\<not> truthy token \<longrightarrow> localStorage (setStoredRefresh token s) = None)
   \<and> (login email password s = (Inr res, s') \<and> get_prop res ''refreshToken'' = Inr (JStr [])
        \<longrightarrow> localStorage s' = None \<and> isAuthenticated s' = False)
   \<and> (refreshToken s = (Inr res, s') \<and> get_prop res ''refreshToken'' = Inr (JStr [])
        \<longrightarrow> localStorage s' = None \<and> isAuthenticated s' = False)"
  by (auto dest!: login_success refreshToken_success simp: isAuthenticated_def getStoredRefresh_def)
     (simp_all add: setStoredRefresh_def)

text \<open>
  A login at the service that hands out an empty refresh credential, and a refresh at it
  over a stored credential: both succeed, and the user is not authenticated afterwards.
\<close>

theorem falsy_refresh_token_clears_store_witness:
  "\<not> truthy (JStr [])
   \<and> fst (login (JStr ''a@x.com'') (JStr ''pw'') (init None careless)) = Inr (tokens ''A1'' [])
   \<and> get_prop (tokens ''A1'' []) ''refreshToken'' = Inr (JStr [])
   \<and> localStorage (snd (login (JStr ''a@x.com'') (JStr ''pw'') (init None careless))) = None
   \<and> isAuthenticated (snd (login (JStr ''a@x.com'') (JStr ''pw'') (init None careless))) = False
   \<and> isAuthenticated (init (Some ''R1'') careless) = True
   \<and> fst (refreshToken (init (Some ''R1'') careless)) = Inr (tokens ''A1'' [])
   \<and> localStorage (snd (refreshToken (init (Some ''R1'') careless))) = None
   \<and> isAuthenticated (snd (refreshToken (init (Some ''R1'') careless))) = False"
proof -
  have fl: "fst (login (JStr ''a@x.com'') (JStr ''pw'') (init None careless))
      = Inr (tokens ''A1'' [])"
    and fr: "fst (refreshToken (init (Some ''R1'') careless)) = Inr (tokens ''A1'' [])"
    by (simp_all add: run)
  have l: "login (JStr ''a@x.com'') (JStr ''pw'') (init None careless)
      = (Inr (tokens ''A1'' []),
         snd (login (JStr ''a@x.com'') (JStr ''pw'') (init None careless)))"
    and r: "refreshToken (init (Some ''R1'') careless)
      = (Inr (tokens ''A1'' []), snd (refreshToken (init (Some ''R1'') careless)))"
    using fl fr by (simp_all add: prod_eq_iff)
  have g: "get_prop (tokens ''A1'' []) ''refreshToken'' = Inr (JStr [])"
    by (simp add: tokens_def)
  have i: "isAuthenticated (init (Some ''R1'') careless) = True"
    by (simp add: isAuthenticated_def getStoredRefresh_def init_def)
  note t = falsy_refresh_token_clears_store
  have "localStorage (snd (login (JStr ''a@x.com'') (JStr ''pw'') (init None careless))) = None
      \<and> isAuthenticated (snd (login (JStr ''a@x.com'') (JStr ''pw'') (init None careless))) = False"
    using t [of JNull "init None careless" "JStr ''a@x.com''" "JStr ''pw''" "tokens ''A1'' []"
          "snd (login (JStr ''a@x.com'') (JStr ''pw'') (init None careless))"] l g
    by simp
  moreover have "localStorage (snd (refreshToken (init (Some ''R1'') careless))) = None
      \<and> isAuthenticated (snd (refreshToken (init (Some ''R1'') careless))) = False"
    using t [of JNull "init (Some ''R1'') careless" JNull JNull "tokens ''A1'' []"
          "snd (refreshToken (init (Some ''R1'') careless))"] r g
    by simp
  ultimately show ?thesis
    using fl fr g i by simp
qed

end
